theory Spec2Isabelle
  imports Main
begin

section \<open>Cart data (the interfaces of the cart context)\<close>

text \<open>
  The interfaces \<^verbatim>\<open>CartLine\<close> and \<^verbatim>\<open>ShopifyCart\<close> as records. A field called
  \<^verbatim>\<open>id\<close> in the source is \<open>line_id\<close>, \<open>merchandise_id\<close> or \<open>cart_id\<close> here
  (\<open>id\<close> is the identity function of HOL); the fields \<^verbatim>\<open>cost.totalAmount\<close> and
  \<^verbatim>\<open>checkoutUrl\<close> of a cart are \<open>cost_totalAmount\<close> and \<open>cart_checkoutUrl\<close>, since the
  context exposes derived reads with the plain names. Quantities are JavaScript numbers;
  they are integers here. The display-only parts of a line's merchandise (selected
  options, product images) are left out: no operation of the cart context reads them.
\<close>

record Money =
  amount :: string
  currencyCode :: string

record Merchandise =
  merchandise_id :: string
  title :: string
  price :: Money

record CartLine =
  line_id :: string
  quantity :: int
  merchandise :: Merchandise

record Edge =
  node :: CartLine

record Connection =
  edges :: "Edge list"

record Cost =
  cost_totalAmount :: Money
  subtotalAmount :: "Money option"
  totalTaxAmount :: "Money option"

record ShopifyCart =
  cart_id :: string
  lines :: Connection
  cost :: Cost
  cart_checkoutUrl :: string

section \<open>The remote service\<close>

text \<open>
  What \<^verbatim>\<open>shopifyFetch\<close> is given: the GraphQL document and its variables. One
  constructor for each document of \<^verbatim>\<open>graphql/cart.js\<close>, carrying that document's
  variables (\<open>None\<close> is \<^verbatim>\<open>null\<close>).
\<close>

datatype CartLineInput = CartLineInput (merchandiseId: string) (input_quantity: int)

datatype CartLineUpdateInput = CartLineUpdateInput (update_id: string) (update_quantity: int)

datatype request =
    CREATE_CART_MUTATION "CartLineInput list option"
  | ADD_CART_LINES_MUTATION string "CartLineInput list"
  | UPDATE_CART_LINES_MUTATION string "CartLineUpdateInput list"
  | REMOVE_CART_LINES_MUTATION string "string list"
  | GET_CART_QUERY string

text \<open>
  What the remote service answers: \<^verbatim>\<open>response.data\<close>, with the payload of each
  mutation (\<^verbatim>\<open>cart\<close>, nullable, and \<^verbatim>\<open>userErrors\<close>) and the \<^verbatim>\<open>cart\<close> field of
  the query. An operation reads only the field of its own document.
\<close>

record UserError =
  field :: "string list option"
  message :: string

record Payload =
  payload_cart :: "ShopifyCart option"
  userErrors :: "UserError list"

record ResponseData =
  cartCreate :: Payload
  cartLinesAdd :: Payload
  cartLinesUpdate :: Payload
  cartLinesRemove :: Payload
  data_cart :: "ShopifyCart option"

record Response =
  data :: ResponseData

text \<open>
  A thrown value: an \<^verbatim>\<open>Error\<close> object with its message, or anything else. The cart
  context tells the two apart with \<^verbatim>\<open>err instanceof Error\<close>.
\<close>

datatype thrown = JsError string | NonError

text \<open>
  \<^verbatim>\<open>shopifyFetch\<close> is defined in \<^verbatim>\<open>services/shopify/client.js\<close>, which is not among
  the sources; the remote service it talks to is the parameter \<open>R\<close>: given the requests
  sent so far and the request, either the value the call throws (a transport failure)
  or the response. A call appends its request to the list of requests sent.
\<close>

type_synonym remote = "request list \<Rightarrow> request \<Rightarrow> thrown + Response"

type_synonym 'a fetching = "request list \<Rightarrow> (thrown + 'a) \<times> request list"

definition shopifyFetch :: "remote \<Rightarrow> request \<Rightarrow> Response fetching" where
  "shopifyFetch R req sent_before = (R sent_before req, sent_before @ [req])"

section \<open>The gateway: \<^verbatim>\<open>graphql/cart.js\<close>\<close>

text \<open>
  The five functions the cart context calls. It imports them by these names from
  \<^verbatim>\<open>services/shopify/api.js\<close>, which is not among the sources; they are taken to be
  the functions of \<^verbatim>\<open>graphql/cart.js\<close>.
\<close>

definition createCart :: "remote \<Rightarrow> CartLineInput list \<Rightarrow> ShopifyCart option fetching" where
  "createCart R lns sent_before =
     (case shopifyFetch R
             (CREATE_CART_MUTATION (if length lns > 0 then Some lns else None)) sent_before of
        (Inl err, sent_after) \<Rightarrow> (Inl err, sent_after)
      | (Inr response, sent_after) \<Rightarrow>
          if length (userErrors (cartCreate (data response))) > 0
          then (Inl (JsError (message (hd (userErrors (cartCreate (data response)))))),
                sent_after)
          else (Inr (payload_cart (cartCreate (data response))), sent_after))"

definition addCartLines ::
  "remote \<Rightarrow> string \<Rightarrow> CartLineInput list \<Rightarrow> ShopifyCart option fetching" where
  "addCartLines R cartId lns sent_before =
     (case shopifyFetch R (ADD_CART_LINES_MUTATION cartId lns) sent_before of
        (Inl err, sent_after) \<Rightarrow> (Inl err, sent_after)
      | (Inr response, sent_after) \<Rightarrow>
          if length (userErrors (cartLinesAdd (data response))) > 0
          then (Inl (JsError (message (hd (userErrors (cartLinesAdd (data response)))))),
                sent_after)
          else (Inr (payload_cart (cartLinesAdd (data response))), sent_after))"

definition updateCartLines ::
  "remote \<Rightarrow> string \<Rightarrow> CartLineUpdateInput list \<Rightarrow> ShopifyCart option fetching" where
  "updateCartLines R cartId lns sent_before =
     (case shopifyFetch R (UPDATE_CART_LINES_MUTATION cartId lns) sent_before of
        (Inl err, sent_after) \<Rightarrow> (Inl err, sent_after)
      | (Inr response, sent_after) \<Rightarrow>
          if length (userErrors (cartLinesUpdate (data response))) > 0
          then (Inl (JsError (message (hd (userErrors (cartLinesUpdate (data response)))))),
                sent_after)
          else (Inr (payload_cart (cartLinesUpdate (data response))), sent_after))"

definition removeCartLines ::
  "remote \<Rightarrow> string \<Rightarrow> string list \<Rightarrow> ShopifyCart option fetching" where
  "removeCartLines R cartId lineIds sent_before =
     (case shopifyFetch R (REMOVE_CART_LINES_MUTATION cartId lineIds) sent_before of
        (Inl err, sent_after) \<Rightarrow> (Inl err, sent_after)
      | (Inr response, sent_after) \<Rightarrow>
          if length (userErrors (cartLinesRemove (data response))) > 0
          then (Inl (JsError (message (hd (userErrors (cartLinesRemove (data response)))))),
                sent_after)
          else (Inr (payload_cart (cartLinesRemove (data response))), sent_after))"

definition getCart :: "remote \<Rightarrow> string \<Rightarrow> ShopifyCart option fetching" where
  "getCart R cartId sent_before =
     (case shopifyFetch R (GET_CART_QUERY cartId) sent_before of
        (Inl err, sent_after) \<Rightarrow> (Inl err, sent_after)
      | (Inr response, sent_after) \<Rightarrow> (Inr (data_cart (data response)), sent_after))"

section \<open>The cart context: state\<close>

text \<open>
  The state of \<^verbatim>\<open>CartProvider\<close>: its five \<^verbatim>\<open>useState\<close> cells, the browser's
  \<^verbatim>\<open>localStorage\<close> (a map from keys to values), the requests sent to the remote
  service so far, and the lines written to the console. The callbacks of the provider
  close over the \<^verbatim>\<open>cartId\<close> of the render that made them. The operations of the
  next sections are calls through the callbacks of the latest render, so the
  \<^verbatim>\<open>cartId\<close> they close over is the one of the state they start in; calls through the
  callbacks of any render, overlapping or not, are in the section on sessions.
\<close>

record provider =
  isOpen :: bool
  cartId :: "string option"
  cart :: "ShopifyCart option"
  loading :: bool
  error :: "string option"
  localStorage :: "string \<rightharpoonup> string"
  sent :: "request list"
  console :: "string list"

definition CART_ID_KEY :: string where
  "CART_ID_KEY = ''cartId''"

text \<open>The initial values of the \<^verbatim>\<open>useState\<close> cells, over a given \<^verbatim>\<open>localStorage\<close>.\<close>

definition initial :: "(string \<rightharpoonup> string) \<Rightarrow> provider" where
  "initial storage =
     \<lparr>isOpen = False, cartId = None, cart = None, loading = True, error = None,
      localStorage = storage, sent = [], console = []\<rparr>"

text \<open>
  JavaScript's truthiness of a value that is a string or \<^verbatim>\<open>null\<close>: \<^verbatim>\<open>null\<close> and the
  empty string are falsy. It decides \<^verbatim>\<open>if (cartId)\<close>, \<^verbatim>\<open>if (!cartId)\<close> and
  \<^verbatim>\<open>if (!storedCartId)\<close>.
\<close>

definition truthy :: "string option \<Rightarrow> bool" where
  "truthy v = (case v of None \<Rightarrow> False | Some str \<Rightarrow> str \<noteq> [])"

definition setIsOpen :: "bool \<Rightarrow> provider \<Rightarrow> provider" where
  "setIsOpen b s = s\<lparr>isOpen := b\<rparr>"

definition setCartId :: "string option \<Rightarrow> provider \<Rightarrow> provider" where
  "setCartId v s = s\<lparr>cartId := v\<rparr>"

definition setCart :: "ShopifyCart option \<Rightarrow> provider \<Rightarrow> provider" where
  "setCart v s = s\<lparr>cart := v\<rparr>"

definition setLoading :: "bool \<Rightarrow> provider \<Rightarrow> provider" where
  "setLoading b s = s\<lparr>loading := b\<rparr>"

definition setError :: "string option \<Rightarrow> provider \<Rightarrow> provider" where
  "setError v s = s\<lparr>error := v\<rparr>"

definition localStorage_getItem :: "string \<Rightarrow> provider \<Rightarrow> string option" where
  "localStorage_getItem k s = localStorage s k"

definition localStorage_setItem :: "string \<Rightarrow> string \<Rightarrow> provider \<Rightarrow> provider" where
  "localStorage_setItem k v s = s\<lparr>localStorage := (localStorage s)(k \<mapsto> v)\<rparr>"

definition localStorage_removeItem :: "string \<Rightarrow> provider \<Rightarrow> provider" where
  "localStorage_removeItem k s = s\<lparr>localStorage := (localStorage s)(k := None)\<rparr>"

definition console_error :: "string \<Rightarrow> provider \<Rightarrow> provider" where
  "console_error msg s = s\<lparr>console := console s @ [msg]\<rparr>"

definition console_warn :: "string \<Rightarrow> provider \<Rightarrow> provider" where
  "console_warn msg s = s\<lparr>console := console s @ [msg]\<rparr>"

section \<open>The cart context: control\<close>

text \<open>
  An operation of the provider takes the state and gives what it returns or throws
  (for an \<^verbatim>\<open>async\<close> function: what its promise resolves to or is rejected with) and
  the state it leaves. The combinators below are the statements the source is written
  with: \<^verbatim>\<open>return\<close>, \<^verbatim>\<open>throw\<close>, sequencing, a state update, an awaited gateway
  call, \<^verbatim>\<open>try/catch\<close> and \<^verbatim>\<open>try/catch/finally\<close>.
\<close>

type_synonym 'a action = "provider \<Rightarrow> (thrown + 'a) \<times> provider"

definition returns :: "'a \<Rightarrow> 'a action" where
  "returns v s = (Inr v, s)"

definition throws :: "thrown \<Rightarrow> 'a action" where
  "throws err s = (Inl err, s)"

definition and_then :: "'a action \<Rightarrow> ('a \<Rightarrow> 'b action) \<Rightarrow> 'b action" where
  "and_then m f s = (case m s of (Inl err, s') \<Rightarrow> (Inl err, s') | (Inr v, s') \<Rightarrow> f v s')"

definition update :: "(provider \<Rightarrow> provider) \<Rightarrow> unit action" where
  "update f s = (Inr (), f s)"

definition await :: "'a fetching \<Rightarrow> 'a action" where
  "await g s = (case g (sent s) of (r, sent_after) \<Rightarrow> (r, s\<lparr>sent := sent_after\<rparr>))"

definition try_catch :: "'a action \<Rightarrow> (thrown \<Rightarrow> 'a action) \<Rightarrow> 'a action" where
  "try_catch body handler s =
     (case body s of (Inr v, s') \<Rightarrow> (Inr v, s') | (Inl err, s') \<Rightarrow> handler err s')"

definition try_catch_finally ::
  "'a action \<Rightarrow> (thrown \<Rightarrow> 'a action) \<Rightarrow> (provider \<Rightarrow> provider) \<Rightarrow> 'a action" where
  "try_catch_finally body handler finalizer s =
     (case try_catch body handler s of (r, s') \<Rightarrow> (r, finalizer s'))"

text \<open>\<^verbatim>\<open>err instanceof Error ? err.message : fallback\<close>\<close>

definition errorMessage :: "thrown \<Rightarrow> string \<Rightarrow> string" where
  "errorMessage err fallback = (case err of JsError msg \<Rightarrow> msg | NonError \<Rightarrow> fallback)"

text \<open>
  Reading \<^verbatim>\<open>newCart.id\<close> when the gateway resolved to \<^verbatim>\<open>null\<close> throws a
  \<^verbatim>\<open>TypeError\<close>, an \<^verbatim>\<open>Error\<close> whose message is the engine's.
\<close>

definition nullIdTypeError :: thrown where
  "nullIdTypeError = JsError ''Cannot read properties of null (reading id)''"

section \<open>The cart context: operations\<close>

definition storeCartId :: "string \<Rightarrow> provider \<Rightarrow> provider" where
  "storeCartId ident s = setCartId (Some ident) (localStorage_setItem CART_ID_KEY ident s)"

definition refreshCart :: "remote \<Rightarrow> unit action" where
  "refreshCart R s =
     (let storedCartId = localStorage_getItem CART_ID_KEY s in
      if \<not> truthy storedCartId then and_then (update (setLoading False)) (\<lambda>_. returns ()) s
      else
        try_catch_finally
          (and_then (update (setLoading True)) (\<lambda>_.
           and_then (update (setError None)) (\<lambda>_.
           and_then (await (getCart R (the storedCartId))) (\<lambda>fetchedCart.
             case fetchedCart of
               Some c \<Rightarrow>
                 and_then (update (setCart fetchedCart)) (\<lambda>_.
                 update (setCartId storedCartId))
             | None \<Rightarrow>
                 and_then (update (localStorage_removeItem CART_ID_KEY)) (\<lambda>_.
                 and_then (update (setCartId None)) (\<lambda>_.
                 update (setCart None)))))))
          (\<lambda>err.
             and_then (update (console_error ''Error fetching cart:'')) (\<lambda>_.
             and_then (update (localStorage_removeItem CART_ID_KEY)) (\<lambda>_.
             and_then (update (setCartId None)) (\<lambda>_.
             and_then (update (setCart None)) (\<lambda>_.
             update (setError (Some ''Failed to fetch cart'')))))))
          (setLoading False) s)"

definition getOrCreateCart :: "remote \<Rightarrow> string action" where
  "getOrCreateCart R s =
     (if truthy (cartId s) then returns (the (cartId s)) s
      else
        let storedCartId = localStorage_getItem CART_ID_KEY s in
        if truthy storedCartId
        then and_then (update (setCartId storedCartId)) (\<lambda>_. returns (the storedCartId)) s
        else
          try_catch
            (and_then (await (createCart R [])) (\<lambda>newCart.
             and_then (update (setCart newCart)) (\<lambda>_.
               case newCart of
                 None \<Rightarrow> throws nullIdTypeError
               | Some c \<Rightarrow>
                   and_then (update (storeCartId (cart_id c))) (\<lambda>_.
                   returns (cart_id c)))))
            (\<lambda>err.
               and_then (update (console_error ''Failed to create cart:'')) (\<lambda>_.
               throws err)) s)"

definition openCart :: "provider \<Rightarrow> provider" where
  "openCart s = setIsOpen True s"

definition closeCart :: "provider \<Rightarrow> provider" where
  "closeCart s = setIsOpen False s"

definition toggleCart :: "provider \<Rightarrow> provider" where
  "toggleCart s = setIsOpen (\<not> isOpen s) s"

definition addItem :: "remote \<Rightarrow> string \<Rightarrow> int \<Rightarrow> ShopifyCart option action" where
  "addItem R variantId qty =
     try_catch_finally
       (and_then (update (setLoading True)) (\<lambda>_.
        and_then (update (setError None)) (\<lambda>_.
        and_then (getOrCreateCart R) (\<lambda>currentCartId.
        and_then (await (addCartLines R currentCartId [CartLineInput variantId qty]))
          (\<lambda>updatedCart.
        and_then (update (setCart updatedCart)) (\<lambda>_.
        returns updatedCart))))))
       (\<lambda>err.
          and_then (update (setError (Some (errorMessage err ''Failed to add item to cart''))))
            (\<lambda>_.
          throws err))
       (setLoading False)"

definition removeItem :: "remote \<Rightarrow> string \<Rightarrow> ShopifyCart option action" where
  "removeItem R lineId s =
     (if \<not> truthy (cartId s) then throws (JsError ''No cart exists'') s
      else
        try_catch_finally
          (and_then (update (setLoading True)) (\<lambda>_.
           and_then (update (setError None)) (\<lambda>_.
           and_then (await (removeCartLines R (the (cartId s)) [lineId])) (\<lambda>updatedCart.
           and_then (update (setCart updatedCart)) (\<lambda>_.
           returns updatedCart)))))
          (\<lambda>err.
             and_then
               (update (setError (Some (errorMessage err ''Failed to remove item from cart''))))
               (\<lambda>_.
             throws err))
          (setLoading False) s)"

definition updateItemQuantity :: "remote \<Rightarrow> string \<Rightarrow> int \<Rightarrow> ShopifyCart option action" where
  "updateItemQuantity R lineId qty s =
     (if \<not> truthy (cartId s) then throws (JsError ''No cart exists'') s
      else if qty \<le> 0 then removeItem R lineId s
      else
        try_catch_finally
          (and_then (update (setLoading True)) (\<lambda>_.
           and_then (update (setError None)) (\<lambda>_.
           and_then
             (await (updateCartLines R (the (cartId s)) [CartLineUpdateInput lineId qty]))
             (\<lambda>updatedCart.
           and_then (update (setCart updatedCart)) (\<lambda>_.
           returns updatedCart)))))
          (\<lambda>err.
             and_then
               (update (setError (Some (errorMessage err ''Failed to update item quantity''))))
               (\<lambda>_.
             throws err))
          (setLoading False) s)"

subsection \<open>Derived reads\<close>

text \<open>
  \<^verbatim>\<open>parseFloat\<close> is a built-in of the language that yields a floating-point number;
  it is the parameter \<open>parseFloat\<close> of \<open>totalAmount\<close>, into any type of numbers.
\<close>

definition items :: "provider \<Rightarrow> CartLine list" where
  "items s = (case cart s of None \<Rightarrow> [] | Some c \<Rightarrow> map (\<lambda>edge. node edge) (edges (lines c)))"

definition itemCount :: "provider \<Rightarrow> int" where
  "itemCount s = foldl (\<lambda>sum item. sum + quantity item) 0 (items s)"

definition totalAmount :: "(string \<Rightarrow> 'n) \<Rightarrow> provider \<Rightarrow> 'n" where
  "totalAmount parseFloat s =
     parseFloat (case cart s of None \<Rightarrow> ''0'' | Some c \<Rightarrow> amount (cost_totalAmount (cost c)))"

definition checkoutUrl :: "provider \<Rightarrow> string option" where
  "checkoutUrl s = (case cart s of None \<Rightarrow> None | Some c \<Rightarrow> Some (cart_checkoutUrl c))"

section \<open>The legacy wrapper: \<^verbatim>\<open>hooks/use-cart.ts\<close>\<close>

text \<open>
  \<^verbatim>\<open>useShopifyCart\<close> hands on the values of the context and adds two functions of its
  own, \<^verbatim>\<open>clearCartId\<close> and \<^verbatim>\<open>createCart\<close>; the latter has the prefix of the hook here,
  the gateway having a \<open>createCart\<close> too.
\<close>

definition clearCartId :: "provider \<Rightarrow> provider" where
  "clearCartId s =
     console_warn ''clearCartId is deprecated, cart state is managed by CartContext'' s"

definition useShopifyCart_createCart :: "ShopifyCart option action" where
  "useShopifyCart_createCart =
     and_then
       (update (console_warn
          ''createCart is deprecated, cart is created automatically by CartContext''))
       (\<lambda>_ s. returns (cart s) s)"

section \<open>Counting the carts created\<close>

fun is_createCart :: "request \<Rightarrow> bool" where
  "is_createCart (CREATE_CART_MUTATION lns) = True"
| "is_createCart (ADD_CART_LINES_MUTATION cid lns) = False"
| "is_createCart (UPDATE_CART_LINES_MUTATION cid lns) = False"
| "is_createCart (REMOVE_CART_LINES_MUTATION cid lineIds) = False"
| "is_createCart (GET_CART_QUERY cid) = False"

definition createCart_calls :: "provider \<Rightarrow> nat" where
  "createCart_calls s = length (filter is_createCart (sent s))"

text \<open>An identity is held: the provider's \<^verbatim>\<open>cartId\<close> or the persisted one is truthy.\<close>

definition has_identity :: "provider \<Rightarrow> bool" where
  "has_identity s = (truthy (cartId s) \<or> truthy (localStorage_getItem CART_ID_KEY s))"

text \<open>An identity is persisted: \<^verbatim>\<open>localStorage\<close> holds a truthy value under the key.\<close>

definition persisted_identity :: "provider \<Rightarrow> bool" where
  "persisted_identity s = truthy (localStorage_getItem CART_ID_KEY s)"

section \<open>Sessions: calls of the mutations, one after the other or overlapping\<close>

text \<open>
  An \<^verbatim>\<open>async\<close> function runs until it awaits a request to the remote service, and
  goes on when the request has settled; other calls may run in between. A call of a
  mutation is therefore called and not yet run, or suspended in its gateway call
  (\<^verbatim>\<open>addItem\<close> first in \<^verbatim>\<open>createCart()\<close>, when it has to create the cart), or
  settled. A call that has not yet run carries the \<^verbatim>\<open>cartId\<close> its callback closes
  over, that of the render that made the callback, which need not be the latest; a
  suspended call holds what its gateway call will resolve to or throw, which the remote
  service decided from the requests it had received when this one was sent.
\<close>

datatype call =
    AddItem "string option" string int
  | AddItem_in_createCart string int "thrown + ShopifyCart option"
  | AddItem_in_addCartLines "thrown + ShopifyCart option"
  | RemoveItem "string option" string
  | RemoveItem_in_removeCartLines "thrown + ShopifyCart option"
  | UpdateItemQuantity "string option" string int
  | UpdateItemQuantity_in_updateCartLines "thrown + ShopifyCart option"
  | Settled "thrown + ShopifyCart option"

text \<open>
  The \<^verbatim>\<open>catch\<close> and \<^verbatim>\<open>finally\<close> blocks of a mutation, with the message it falls
  back to, and its end when the gateway call has resolved.
\<close>

definition caught :: "string \<Rightarrow> thrown \<Rightarrow> provider \<Rightarrow> call \<times> provider" where
  "caught fallback err s =
     (Settled (Inl err), setLoading False (setError (Some (errorMessage err fallback)) s))"

definition resolved :: "ShopifyCart option \<Rightarrow> provider \<Rightarrow> call \<times> provider" where
  "resolved updatedCart s = (Settled (Inr updatedCart), setLoading False (setCart updatedCart s))"

text \<open>\<^verbatim>\<open>addItem\<close> from the value of \<^verbatim>\<open>await getOrCreateCart()\<close> to its next await.\<close>

definition addItem_send :: "remote \<Rightarrow> string \<Rightarrow> int \<Rightarrow> string \<Rightarrow> provider \<Rightarrow> call \<times> provider"
  where
  "addItem_send R variantId qty currentCartId s =
     (case await (addCartLines R currentCartId [CartLineInput variantId qty]) s of
        (outcome, s') \<Rightarrow> (AddItem_in_addCartLines outcome, s'))"

text \<open>\<^verbatim>\<open>removeItem\<close>, of the render whose \<^verbatim>\<open>cartId\<close> is \<open>cid\<close>, up to its await.\<close>

definition removeItem_start :: "remote \<Rightarrow> string option \<Rightarrow> string \<Rightarrow> provider \<Rightarrow> call \<times> provider"
  where
  "removeItem_start R cid lineId s =
     (if \<not> truthy cid then (Settled (Inl (JsError ''No cart exists'')), s)
      else
        (case await (removeCartLines R (the cid) [lineId]) (setError None (setLoading True s)) of
           (outcome, s') \<Rightarrow> (RemoveItem_in_removeCartLines outcome, s')))"

fun resume :: "remote \<Rightarrow> call \<Rightarrow> provider \<Rightarrow> call \<times> provider" where
  "resume R (AddItem cid variantId qty) s =
     (let s1 = setError None (setLoading True s) in
      if truthy cid then addItem_send R variantId qty (the cid) s1
      else
        let storedCartId = localStorage_getItem CART_ID_KEY s1 in
        if truthy storedCartId
        then addItem_send R variantId qty (the storedCartId) (setCartId storedCartId s1)
        else
          (case await (createCart R []) s1 of
             (outcome, s2) \<Rightarrow> (AddItem_in_createCart variantId qty outcome, s2)))"
| "resume R (AddItem_in_createCart variantId qty outcome) s =
     (case outcome of
        Inl err \<Rightarrow>
          caught ''Failed to add item to cart'' err (console_error ''Failed to create cart:'' s)
      | Inr newCart \<Rightarrow>
          (case newCart of
             None \<Rightarrow>
               caught ''Failed to add item to cart'' nullIdTypeError
                 (console_error ''Failed to create cart:'' (setCart newCart s))
           | Some c \<Rightarrow>
               addItem_send R variantId qty (cart_id c)
                 (storeCartId (cart_id c) (setCart newCart s))))"
| "resume R (AddItem_in_addCartLines outcome) s =
     (case outcome of
        Inl err \<Rightarrow> caught ''Failed to add item to cart'' err s
      | Inr updatedCart \<Rightarrow> resolved updatedCart s)"
| "resume R (RemoveItem cid lineId) s = removeItem_start R cid lineId s"
| "resume R (RemoveItem_in_removeCartLines outcome) s =
     (case outcome of
        Inl err \<Rightarrow> caught ''Failed to remove item from cart'' err s
      | Inr updatedCart \<Rightarrow> resolved updatedCart s)"
| "resume R (UpdateItemQuantity cid lineId qty) s =
     (if \<not> truthy cid then (Settled (Inl (JsError ''No cart exists'')), s)
      else if qty \<le> 0 then removeItem_start R cid lineId s
      else
        (case await (updateCartLines R (the cid) [CartLineUpdateInput lineId qty])
                (setError None (setLoading True s)) of
           (outcome, s') \<Rightarrow> (UpdateItemQuantity_in_updateCartLines outcome, s')))"
| "resume R (UpdateItemQuantity_in_updateCartLines outcome) s =
     (case outcome of
        Inl err \<Rightarrow> caught ''Failed to update item quantity'' err s
      | Inr updatedCart \<Rightarrow> resolved updatedCart s)"
| "resume R (Settled r) s = (Settled r, s)"

text \<open>
  A schedule names, step by step, the call that runs next (a position in the list of
  calls; a position past the end runs nothing). Calls made one after the other, each
  once the one before it has settled, are the schedules that run a call to its end
  before they name the next.
\<close>

fun interleaved ::
  "remote \<Rightarrow> nat list \<Rightarrow> call list \<Rightarrow> provider \<Rightarrow> call list \<times> provider" where
  "interleaved R [] calls s = (calls, s)"
| "interleaved R (i # schedule) calls s =
     (if i < length calls
      then (case resume R (calls ! i) s of
              (call', s') \<Rightarrow> interleaved R schedule (calls[i := call']) s')
      else interleaved R schedule calls s)"

text \<open>
  A call that can still send a request to create a cart: a call of \<^verbatim>\<open>addItem\<close> that
  has not yet run, made by a render without a \<^verbatim>\<open>cartId\<close>.
\<close>

fun may_create :: "call \<Rightarrow> bool" where
  "may_create (AddItem cid variantId qty) = (\<not> truthy cid)"
| "may_create (AddItem_in_createCart variantId qty outcome) = False"
| "may_create (AddItem_in_addCartLines outcome) = False"
| "may_create (RemoveItem cid lineId) = False"
| "may_create (RemoveItem_in_removeCartLines outcome) = False"
| "may_create (UpdateItemQuantity cid lineId qty) = False"
| "may_create (UpdateItemQuantity_in_updateCartLines outcome) = False"
| "may_create (Settled r) = False"

text \<open>
  A call suspended in \<^verbatim>\<open>createCart()\<close> whose cart comes back with an empty id: when
  it goes on, it stores the empty string as the identity.
\<close>

fun creates_unnamed :: "call \<Rightarrow> bool" where
  "creates_unnamed (AddItem_in_createCart variantId qty (Inr (Some c))) = (cart_id c = [])"
| "creates_unnamed c = False"

section \<open>Example carts and remote services\<close>

definition cart_of :: "string \<Rightarrow> (string \<times> int) list \<Rightarrow> string \<Rightarrow> ShopifyCart" where
  "cart_of ident lns amt =
     \<lparr>cart_id = ident,
      lines = \<lparr>edges = map (\<lambda>(lid, q).
                 \<lparr>node = \<lparr>line_id = lid, quantity = q,
                           merchandise = \<lparr>merchandise_id = ''variant-A'', title = ''A'',
                                          price = \<lparr>amount = ''10'', currencyCode = ''USD''\<rparr>\<rparr>\<rparr>\<rparr>)
               lns\<rparr>,
      cost = \<lparr>cost_totalAmount = \<lparr>amount = amt, currencyCode = ''USD''\<rparr>,
              subtotalAmount = None, totalTaxAmount = None\<rparr>,
      cart_checkoutUrl = ''https://shop.example/checkout''\<rparr>"

definition response_of :: "Payload \<Rightarrow> ShopifyCart option \<Rightarrow> Response" where
  "response_of p c =
     \<lparr>data = \<lparr>cartCreate = p, cartLinesAdd = p, cartLinesUpdate = p, cartLinesRemove = p,
              data_cart = c\<rparr>\<rparr>"

definition accepted :: "ShopifyCart \<Rightarrow> Payload" where
  "accepted c = \<lparr>payload_cart = Some c, userErrors = []\<rparr>"

definition rejected :: "string \<Rightarrow> Payload" where
  "rejected msg = \<lparr>payload_cart = None, userErrors = [\<lparr>field = None, message = msg\<rparr>]\<rparr>"

text \<open>
  A service that creates the empty cart \<open>''gid-1''\<close>, answers every change of lines with
  that cart holding two of one line, and finds the cart when asked for it.
\<close>

definition remote_ok :: remote where
  "remote_ok sent_before req =
     (case req of
        CREATE_CART_MUTATION lns \<Rightarrow>
          Inr (response_of (accepted (cart_of ''gid-1'' [] ''0'')) None)
      | GET_CART_QUERY cid \<Rightarrow>
          Inr (response_of (rejected ''unused'') (Some (cart_of cid [(''line-1'', 2)] ''20'')))
      | _ \<Rightarrow> Inr (response_of (accepted (cart_of ''gid-1'' [(''line-1'', 2)] ''20'')) None))"

text \<open>A service that creates carts and rejects every change of lines with a user error.\<close>

definition remote_rejecting :: remote where
  "remote_rejecting sent_before req =
     (case req of
        CREATE_CART_MUTATION lns \<Rightarrow>
          Inr (response_of (accepted (cart_of ''gid-1'' [] ''0'')) None)
      | _ \<Rightarrow> Inr (response_of (rejected ''Invalid merchandise'') None))"

text \<open>A service that knows no cart.\<close>

definition remote_not_found :: remote where
  "remote_not_found sent_before req = Inr (response_of (rejected ''unused'') None)"

text \<open>A service that cannot be reached.\<close>

definition remote_down :: remote where
  "remote_down sent_before req = Inl (JsError ''Failed to fetch'')"

text \<open>
  The value of a string of decimal digits. It stands for \<^verbatim>\<open>parseFloat\<close> in the
  examples, which agrees with it on such strings.
\<close>

definition whole_number :: "string \<Rightarrow> int" where
  "whole_number str = foldl (\<lambda>n c. 10 * n + (of_char c - 48)) 0 str"

text \<open>
  States: a fresh session, a session whose persisted identity has not yet been adopted,
  and a session holding cart \<open>''gid-1''\<close> with two of one line.
\<close>

definition fresh :: provider where
  "fresh = (initial Map.empty)\<lparr>loading := False\<rparr>"

definition persisted_only :: provider where
  "persisted_only = initial [CART_ID_KEY \<mapsto> ''gid-1'']"

definition shopping :: provider where
  "shopping =
     (initial [CART_ID_KEY \<mapsto> ''gid-1''])
       \<lparr>cartId := Some ''gid-1'', cart := Some (cart_of ''gid-1'' [(''line-1'', 2)] ''20''),
        loading := False\<rparr>"

section \<open>Unfolding\<close>

lemmas control_defs = returns_def throws_def and_then_def update_def await_def try_catch_def
  try_catch_finally_def
lemmas setter_defs = setIsOpen_def setCartId_def setCart_def setLoading_def setError_def
  localStorage_getItem_def localStorage_setItem_def localStorage_removeItem_def
  console_error_def console_warn_def storeCartId_def
lemmas gateway_defs = shopifyFetch_def createCart_def addCartLines_def updateCartLines_def
  removeCartLines_def getCart_def

lemma foldl_quantity_sum:
  "foldl (\<lambda>sum item. sum + quantity item) acc xs = acc + sum_list (map quantity xs)"
  by (induction xs arbitrary: acc) simp_all

lemma cart_id_cart_of: "cart_id (cart_of ident lns amt) = ident"
  by (simp add: cart_of_def)

text \<open>\<open>getOrCreateCart\<close> neither reads nor writes the loading flag and the error state.\<close>

lemma getOrCreateCart_frame:
  "getOrCreateCart R (s\<lparr>loading := b, error := e\<rparr>) =
     (fst (getOrCreateCart R s), (snd (getOrCreateCart R s))\<lparr>loading := b, error := e\<rparr>)"
  by (auto simp: getOrCreateCart_def truthy_def control_defs gateway_defs setter_defs Let_def
      split: prod.splits sum.splits option.splits if_splits)

text \<open>\<open>addItem\<close>, with its \<^verbatim>\<open>try/catch/finally\<close> resolved into the three ways it ends.\<close>

lemma addItem_unfold:
  "addItem R variantId qty s =
     (case getOrCreateCart R s of
        (Inl err, s1) \<Rightarrow>
          (Inl err, s1\<lparr>error := Some (errorMessage err ''Failed to add item to cart''),
                       loading := False\<rparr>)
      | (Inr cid, s1) \<Rightarrow>
          (case addCartLines R cid [CartLineInput variantId qty] (sent s1) of
             (Inl err, sent2) \<Rightarrow>
               (Inl err, s1\<lparr>sent := sent2,
                            error := Some (errorMessage err ''Failed to add item to cart''),
                            loading := False\<rparr>)
           | (Inr updatedCart, sent2) \<Rightarrow>
               (Inr updatedCart, s1\<lparr>sent := sent2, cart := updatedCart, error := None,
                                     loading := False\<rparr>)))"
  by (auto simp: addItem_def control_defs setLoading_def setError_def setCart_def
      getOrCreateCart_frame
      split: prod.splits sum.splits)

section \<open>The gateway's contract\<close>

text \<open>
  Claim C9. Given a response of the remote service (the transport succeeded), each
  mutation of the gateway (\<open>createCart\<close>, \<open>addCartLines\<close>, \<open>updateCartLines\<close>,
  \<open>removeCartLines\<close>) throws an error carrying the message of the first user error if
  the response's list of user errors is non-empty, and otherwise returns the response's
  cart as it is; \<open>getCart\<close> does not throw on a missing cart: it returns the response's
  \<^verbatim>\<open>cart\<close> field, which is \<^verbatim>\<open>null\<close> when there is no cart of that id.
\<close>

theorem gateway_userErrors:
  "(R sent_before (CREATE_CART_MUTATION (if lns = [] then None else Some lns)) = Inr r1 \<longrightarrow>
      fst (createCart R lns sent_before) =
        (if userErrors (cartCreate (data r1)) \<noteq> []
         then Inl (JsError (message (hd (userErrors (cartCreate (data r1))))))
         else Inr (payload_cart (cartCreate (data r1))))) \<and>
   (R sent_before (ADD_CART_LINES_MUTATION cid lns) = Inr r2 \<longrightarrow>
      fst (addCartLines R cid lns sent_before) =
        (if userErrors (cartLinesAdd (data r2)) \<noteq> []
         then Inl (JsError (message (hd (userErrors (cartLinesAdd (data r2))))))
         else Inr (payload_cart (cartLinesAdd (data r2))))) \<and>
   (R sent_before (UPDATE_CART_LINES_MUTATION cid ups) = Inr r3 \<longrightarrow>
      fst (updateCartLines R cid ups sent_before) =
        (if userErrors (cartLinesUpdate (data r3)) \<noteq> []
         then Inl (JsError (message (hd (userErrors (cartLinesUpdate (data r3))))))
         else Inr (payload_cart (cartLinesUpdate (data r3))))) \<and>
   (R sent_before (REMOVE_CART_LINES_MUTATION cid lineIds) = Inr r4 \<longrightarrow>
      fst (removeCartLines R cid lineIds sent_before) =
        (if userErrors (cartLinesRemove (data r4)) \<noteq> []
         then Inl (JsError (message (hd (userErrors (cartLinesRemove (data r4))))))
         else Inr (payload_cart (cartLinesRemove (data r4))))) \<and>
   (R sent_before (GET_CART_QUERY cid) = Inr r5 \<longrightarrow>
      fst (getCart R cid sent_before) = Inr (data_cart (data r5)))"
  by (simp add: gateway_defs)

text \<open>
  Claim C9, at a service that creates carts and rejects every change of lines; it knows
  no cart \<open>''gid-1''\<close>, and \<open>getCart\<close> returns \<^verbatim>\<open>null\<close>.
\<close>

theorem gateway_userErrors_witness:
  "remote_rejecting [] (CREATE_CART_MUTATION (if ([]::CartLineInput list) = [] then None else Some []))
     = Inr (response_of (accepted (cart_of ''gid-1'' [] ''0'')) None) \<and>
   fst (createCart remote_rejecting [] []) = Inr (Some (cart_of ''gid-1'' [] ''0'')) \<and>
   remote_rejecting [] (ADD_CART_LINES_MUTATION ''gid-1'' [])
     = Inr (response_of (rejected ''Invalid merchandise'') None) \<and>
   fst (addCartLines remote_rejecting ''gid-1'' [] []) = Inl (JsError ''Invalid merchandise'') \<and>
   remote_rejecting [] (UPDATE_CART_LINES_MUTATION ''gid-1'' [CartLineUpdateInput ''line-1'' 3])
     = Inr (response_of (rejected ''Invalid merchandise'') None) \<and>
   fst (updateCartLines remote_rejecting ''gid-1'' [CartLineUpdateInput ''line-1'' 3] [])
     = Inl (JsError ''Invalid merchandise'') \<and>
   remote_rejecting [] (REMOVE_CART_LINES_MUTATION ''gid-1'' [''line-1''])
     = Inr (response_of (rejected ''Invalid merchandise'') None) \<and>
   fst (removeCartLines remote_rejecting ''gid-1'' [''line-1''] [])
     = Inl (JsError ''Invalid merchandise'') \<and>
   remote_rejecting [] (GET_CART_QUERY ''gid-1'')
     = Inr (response_of (rejected ''Invalid merchandise'') None) \<and>
   fst (getCart remote_rejecting ''gid-1'' []) = Inr None"
  using gateway_userErrors [of remote_rejecting "[]" "[]"
      "response_of (accepted (cart_of ''gid-1'' [] ''0'')) None" "''gid-1''"
      "response_of (rejected ''Invalid merchandise'') None"
      "[CartLineUpdateInput ''line-1'' 3]" "response_of (rejected ''Invalid merchandise'') None"
      "[''line-1'']" "response_of (rejected ''Invalid merchandise'') None"
      "response_of (rejected ''Invalid merchandise'') None"]
  by (simp add: remote_rejecting_def response_of_def accepted_def rejected_def)

section \<open>Derived reads\<close>

text \<open>
  Claim C4. In every state the derived reads are functions of the current snapshot:
  \<open>itemCount\<close> is the sum of the quantities of the current lines (0 without a
  snapshot), \<open>totalAmount\<close> is the parse of the snapshot's total amount (the parse of
  \<^verbatim>\<open>'0'\<close>, which is 0, without a snapshot), and \<open>checkoutUrl\<close> is the snapshot's
  checkout URL (absent without a snapshot). States with the same snapshot have the same
  derived reads.
\<close>

theorem derived_reads:
  "itemCount s = sum_list (map quantity (items s)) \<and>
   items s = (case cart s of None \<Rightarrow> [] | Some c \<Rightarrow> map node (edges (lines c))) \<and>
   totalAmount parseFloat s =
     (case cart s of None \<Rightarrow> parseFloat ''0''
      | Some c \<Rightarrow> parseFloat (amount (cost_totalAmount (cost c)))) \<and>
   checkoutUrl s = (case cart s of None \<Rightarrow> None | Some c \<Rightarrow> Some (cart_checkoutUrl c)) \<and>
   (cart s = None \<longrightarrow> itemCount s = 0 \<and> checkoutUrl s = None \<and>
      (parseFloat ''0'' = (0::'n::zero) \<longrightarrow> totalAmount parseFloat s = 0)) \<and>
   (cart s = cart s' \<longrightarrow>
      items s = items s' \<and> itemCount s = itemCount s' \<and>
      totalAmount parseFloat s = totalAmount parseFloat s' \<and> checkoutUrl s = checkoutUrl s')"
  by (auto simp: itemCount_def items_def totalAmount_def checkoutUrl_def foldl_quantity_sum
      split: option.splits)

text \<open>
  Claim C4, in a fresh session (no snapshot) and in a session holding two of one line,
  before and after the cart display is opened.
\<close>

theorem derived_reads_witness:
  "cart fresh = None \<and> whole_number ''0'' = 0 \<and>
   itemCount fresh = 0 \<and> checkoutUrl fresh = None \<and> totalAmount whole_number fresh = 0 \<and>
   cart shopping = cart (openCart shopping) \<and>
   itemCount (openCart shopping) = 2 \<and>
   totalAmount whole_number (openCart shopping) = 20 \<and>
   checkoutUrl (openCart shopping) = Some ''https://shop.example/checkout''"
proof -
  have h1: "cart fresh = None"
    by (simp add: fresh_def initial_def)
  have h2: "whole_number ''0'' = 0"
    by (simp add: whole_number_def)
  have h3: "cart shopping = cart (openCart shopping)"
    by (simp add: openCart_def setIsOpen_def)
  have v: "itemCount shopping = 2" "totalAmount whole_number shopping = 20"
    "checkoutUrl shopping = Some ''https://shop.example/checkout''"
    by (simp_all add: itemCount_def items_def totalAmount_def checkoutUrl_def shopping_def
        initial_def cart_of_def whole_number_def)
  from h1 h2 derived_reads [of fresh whole_number fresh]
  have a: "itemCount fresh = 0" "checkoutUrl fresh = None" "totalAmount whole_number fresh = 0"
    by blast+
  from h3 derived_reads [of shopping whole_number "openCart shopping"]
  have b: "itemCount shopping = itemCount (openCart shopping)"
    "totalAmount whole_number shopping = totalAmount whole_number (openCart shopping)"
    "checkoutUrl shopping = checkoutUrl (openCart shopping)"
    by blast+
  from b v
  have c: "itemCount (openCart shopping) = 2"
    "totalAmount whole_number (openCart shopping) = 20"
    "checkoutUrl (openCart shopping) = Some ''https://shop.example/checkout''"
    by simp_all
  from h1 h2 h3 a c show ?thesis
    by blast
qed

section \<open>The legacy wrapper\<close>

text \<open>
  Claim C10. The two functions \<open>useShopifyCart\<close> adds do nothing to the cart:
  \<open>clearCartId\<close> changes neither the persisted identity, nor the identity in memory, nor
  the snapshot, nor a derived read, and sends nothing; the wrapper's \<open>createCart\<close> sends
  nothing, creates no cart, and returns the current snapshot, leaving identity and
  snapshot as they were.
\<close>

theorem legacy_wrapper_no_ops:
  "localStorage (clearCartId s) = localStorage s \<and>
   cartId (clearCartId s) = cartId s \<and>
   cart (clearCartId s) = cart s \<and>
   sent (clearCartId s) = sent s \<and>
   items (clearCartId s) = items s \<and>
   itemCount (clearCartId s) = itemCount s \<and>
   totalAmount parseFloat (clearCartId s) = totalAmount parseFloat s \<and>
   checkoutUrl (clearCartId s) = checkoutUrl s \<and>
   fst (useShopifyCart_createCart s) = Inr (cart s) \<and>
   sent (snd (useShopifyCart_createCart s)) = sent s \<and>
   cart (snd (useShopifyCart_createCart s)) = cart s \<and>
   cartId (snd (useShopifyCart_createCart s)) = cartId s \<and>
   localStorage (snd (useShopifyCart_createCart s)) = localStorage s"
  by (simp add: clearCartId_def useShopifyCart_createCart_def console_warn_def control_defs
      items_def itemCount_def totalAmount_def checkoutUrl_def)

section \<open>Mutations without a cart\<close>

text \<open>
  Claim C6. In every state without a current identity, \<open>removeItem lineId\<close>, and
  \<open>updateItemQuantity lineId qty\<close> for a positive quantity, fail with the error
  \<^verbatim>\<open>No cart exists\<close>; the state is the one before the call, so no request was sent
  and snapshot, identity and persisted identity are unchanged.
\<close>

theorem no_cart_exists:
  "\<not> truthy (cartId s) \<Longrightarrow>
   removeItem R lineId s = (Inl (JsError ''No cart exists''), s) \<and>
   (0 < qty \<longrightarrow> updateItemQuantity R lineId qty s = (Inl (JsError ''No cart exists''), s))"
  by (simp add: removeItem_def updateItemQuantity_def throws_def)

text \<open>Claim C6, in a fresh session.\<close>

theorem no_cart_exists_witness:
  "\<not> truthy (cartId fresh) \<and> (0::int) < 3 \<and>
   removeItem remote_ok ''line-1'' fresh = (Inl (JsError ''No cart exists''), fresh) \<and>
   updateItemQuantity remote_ok ''line-1'' 3 fresh = (Inl (JsError ''No cart exists''), fresh)"
proof -
  have h: "\<not> truthy (cartId fresh)"
    by (simp add: truthy_def fresh_def initial_def)
  show ?thesis
    using h no_cart_exists [OF h, of remote_ok "''line-1''" 3] by simp
qed

section \<open>A non-positive quantity removes the line\<close>

text \<open>
  Claim C3. For every line and every quantity \<open>qty \<le> 0\<close>, \<open>updateItemQuantity lineId qty\<close>
  is \<open>removeItem lineId\<close>: from the same state both return or throw the same value and
  leave the same state. The one request it sends, when there is an identity, is the removal
  of that line; no update of lines is sent.
\<close>

theorem nonpositive_quantity_removes:
  "qty \<le> 0 \<Longrightarrow>
   updateItemQuantity R lineId qty s = removeItem R lineId s \<and>
   sent (snd (updateItemQuantity R lineId qty s)) =
     (if truthy (cartId s)
      then sent s @ [REMOVE_CART_LINES_MUTATION (the (cartId s)) [lineId]]
      else sent s)"
  by (auto simp: removeItem_def updateItemQuantity_def control_defs gateway_defs setter_defs
      split: prod.splits sum.splits)

text \<open>Claim C3, for quantity 0 in a session holding two of the line.\<close>

theorem nonpositive_quantity_removes_witness:
  "(0::int) \<le> 0 \<and>
   updateItemQuantity remote_ok ''line-1'' 0 shopping = removeItem remote_ok ''line-1'' shopping \<and>
   sent (snd (updateItemQuantity remote_ok ''line-1'' 0 shopping)) =
     [REMOVE_CART_LINES_MUTATION ''gid-1'' [''line-1'']]"
proof -
  have h: "truthy (cartId shopping)" "the (cartId shopping) = ''gid-1''" "sent shopping = []"
    by (simp_all add: truthy_def shopping_def initial_def)
  show ?thesis
    using nonpositive_quantity_removes [of 0 remote_ok "''line-1''" shopping] h by auto
qed

section \<open>Validation of the persisted identity\<close>

text \<open>
  Claim C7. A run of \<open>refreshCart\<close> (the startup run or a later one) that finds a
  persisted identity for which \<open>getCart\<close> returns \<^verbatim>\<open>null\<close> leaves the persisted
  identity cleared, the current identity and the snapshot cleared, the error state unset
  and the loading flag cleared; it has sent the one query for that identity.
\<close>

theorem refreshCart_not_found:
  assumes "localStorage s CART_ID_KEY = Some ident" and "ident \<noteq> []"
    and "fst (getCart R ident (sent s)) = Inr None"
  shows "refreshCart R s =
           (Inr (),
            s\<lparr>loading := False, error := None, cartId := None, cart := None,
              localStorage := (localStorage s)(CART_ID_KEY := None),
              sent := sent s @ [GET_CART_QUERY ident]\<rparr>)"
  using assms
  by (auto simp: refreshCart_def truthy_def control_defs gateway_defs setter_defs
      split: prod.splits sum.splits option.splits)

text \<open>Claim C7, at startup with a persisted identity the service does not know.\<close>

theorem refreshCart_not_found_witness:
  "localStorage persisted_only CART_ID_KEY = Some ''gid-1'' \<and> ''gid-1'' \<noteq> [] \<and>
   fst (getCart remote_not_found ''gid-1'' (sent persisted_only)) = Inr None \<and>
   refreshCart remote_not_found persisted_only =
     (Inr (), (initial Map.empty)\<lparr>loading := False, sent := [GET_CART_QUERY ''gid-1'']\<rparr>)"
proof -
  have h1: "localStorage persisted_only CART_ID_KEY = Some ''gid-1''"
    by (simp add: persisted_only_def initial_def)
  have h2: "''gid-1'' \<noteq> []" by simp
  have h3: "fst (getCart remote_not_found ''gid-1'' (sent persisted_only)) = Inr None"
    by (simp add: gateway_defs remote_not_found_def response_of_def)
  show ?thesis
    using h1 h3 refreshCart_not_found [OF h1 h2 h3]
    by (simp add: persisted_only_def initial_def)
qed

text \<open>
  Claim C8. \<open>refreshCart\<close> never throws, whatever the remote service does; when
  \<open>getCart\<close> throws for the persisted identity, the persisted identity is cleared, the
  current identity and the snapshot are cleared, the error state is set and the loading
  flag is cleared.
\<close>

theorem refreshCart_absorbs_failure:
  "fst (refreshCart R s) = Inr () \<and>
   (localStorage s CART_ID_KEY = Some ident \<and> ident \<noteq> [] \<and>
    fst (getCart R ident (sent s)) = Inl err \<longrightarrow>
      localStorage (snd (refreshCart R s)) CART_ID_KEY = None \<and>
      cartId (snd (refreshCart R s)) = None \<and>
      cart (snd (refreshCart R s)) = None \<and>
      error (snd (refreshCart R s)) = Some ''Failed to fetch cart'' \<and>
      loading (snd (refreshCart R s)) = False)"
  by (auto simp: refreshCart_def truthy_def control_defs gateway_defs setter_defs Let_def
      split: prod.splits sum.splits option.splits)

text \<open>Claim C8, at startup with a persisted identity and a service out of reach.\<close>

theorem refreshCart_absorbs_failure_witness:
  "localStorage persisted_only CART_ID_KEY = Some ''gid-1'' \<and> ''gid-1'' \<noteq> [] \<and>
   fst (getCart remote_down ''gid-1'' (sent persisted_only)) = Inl (JsError ''Failed to fetch'') \<and>
   fst (refreshCart remote_down persisted_only) = Inr () \<and>
   localStorage (snd (refreshCart remote_down persisted_only)) CART_ID_KEY = None \<and>
   cartId (snd (refreshCart remote_down persisted_only)) = None \<and>
   cart (snd (refreshCart remote_down persisted_only)) = None \<and>
   error (snd (refreshCart remote_down persisted_only)) = Some ''Failed to fetch cart'' \<and>
   loading (snd (refreshCart remote_down persisted_only)) = False"
proof -
  have h1: "localStorage persisted_only CART_ID_KEY = Some ''gid-1''"
    by (simp add: persisted_only_def initial_def)
  have h3: "fst (getCart remote_down ''gid-1'' (sent persisted_only)) = Inl (JsError ''Failed to fetch'')"
    by (simp add: gateway_defs remote_down_def)
  show ?thesis
    using h1 h3 refreshCart_absorbs_failure [of remote_down persisted_only "''gid-1''" "JsError ''Failed to fetch''"]
    by simp
qed

section \<open>Acquiring the identity\<close>

text \<open>
  Claim C2, amended. \<open>getOrCreateCart\<close> has three branches. A current identity is
  returned with no request sent and no change of state. Without one, a persisted
  identity is adopted as the current identity and returned, with no request sent.
  Without either, \<open>createCart\<close> is called with no lines; when it returns a cart, the cart
  becomes the snapshot, its identity becomes the current identity and is persisted, and
  that identity is returned; when it throws, the error is thrown on, and snapshot, current
  identity and persisted identity are unchanged.
\<close>

theorem getOrCreateCart_branches:
  "(cartId s = Some ident \<and> ident \<noteq> [] \<longrightarrow> getOrCreateCart R s = (Inr ident, s)) \<and>
   (\<not> truthy (cartId s) \<and> localStorage s CART_ID_KEY = Some ident \<and> ident \<noteq> [] \<longrightarrow>
      getOrCreateCart R s = (Inr ident, s\<lparr>cartId := Some ident\<rparr>)) \<and>
   (\<not> truthy (cartId s) \<and> \<not> truthy (localStorage s CART_ID_KEY) \<and>
    fst (createCart R [] (sent s)) = Inr (Some c) \<longrightarrow>
      getOrCreateCart R s =
        (Inr (cart_id c),
         s\<lparr>cart := Some c, cartId := Some (cart_id c),
           localStorage := (localStorage s)(CART_ID_KEY \<mapsto> cart_id c),
           sent := sent s @ [CREATE_CART_MUTATION None]\<rparr>)) \<and>
   (\<not> truthy (cartId s) \<and> \<not> truthy (localStorage s CART_ID_KEY) \<and>
    fst (createCart R [] (sent s)) = Inl err \<longrightarrow>
      getOrCreateCart R s =
        (Inl err,
         s\<lparr>sent := sent s @ [CREATE_CART_MUTATION None],
           console := console s @ [''Failed to create cart:'']\<rparr>))"
  by (auto simp: getOrCreateCart_def truthy_def control_defs gateway_defs setter_defs Let_def
      split: prod.splits sum.splits option.splits if_splits)

text \<open>
  Claim C2 amended, at the three kinds of state: a session holding a cart, a session
  with only a persisted identity, and a fresh session, at a service that creates carts
  and at one out of reach.
\<close>

theorem getOrCreateCart_branches_witness:
  "cartId shopping = Some ''gid-1'' \<and> ''gid-1'' \<noteq> [] \<and>
   getOrCreateCart remote_ok shopping = (Inr ''gid-1'', shopping) \<and>
   \<not> truthy (cartId persisted_only) \<and>
   localStorage persisted_only CART_ID_KEY = Some ''gid-1'' \<and>
   getOrCreateCart remote_ok persisted_only
     = (Inr ''gid-1'', persisted_only\<lparr>cartId := Some ''gid-1''\<rparr>) \<and>
   \<not> truthy (cartId fresh) \<and> \<not> truthy (localStorage fresh CART_ID_KEY) \<and>
   fst (createCart remote_ok [] (sent fresh)) = Inr (Some (cart_of ''gid-1'' [] ''0'')) \<and>
   getOrCreateCart remote_ok fresh
     = (Inr ''gid-1'',
        fresh\<lparr>cart := Some (cart_of ''gid-1'' [] ''0''), cartId := Some ''gid-1'',
              localStorage := (localStorage fresh)(CART_ID_KEY \<mapsto> ''gid-1''),
              sent := sent fresh @ [CREATE_CART_MUTATION None]\<rparr>) \<and>
   fst (createCart remote_down [] (sent fresh)) = Inl (JsError ''Failed to fetch'') \<and>
   getOrCreateCart remote_down fresh
     = (Inl (JsError ''Failed to fetch''),
        fresh\<lparr>sent := sent fresh @ [CREATE_CART_MUTATION None],
              console := console fresh @ [''Failed to create cart:'']\<rparr>)"
proof -
  have a: "cartId shopping = Some ''gid-1''"
    by (simp add: shopping_def initial_def)
  have b: "\<not> truthy (cartId persisted_only)"
    "localStorage persisted_only CART_ID_KEY = Some ''gid-1''"
    by (simp_all add: truthy_def persisted_only_def initial_def)
  have c: "\<not> truthy (cartId fresh)" "\<not> truthy (localStorage fresh CART_ID_KEY)"
    by (simp_all add: truthy_def fresh_def initial_def)
  have d: "fst (createCart remote_ok [] (sent fresh)) = Inr (Some (cart_of ''gid-1'' [] ''0''))"
    by (simp add: gateway_defs remote_ok_def response_of_def accepted_def)
  have e: "fst (createCart remote_down [] (sent fresh)) = Inl (JsError ''Failed to fetch'')"
    by (simp add: gateway_defs remote_down_def)
  show ?thesis
    using a b c d e
      getOrCreateCart_branches [of shopping "''gid-1''" remote_ok]
      getOrCreateCart_branches [of persisted_only "''gid-1''" remote_ok]
      getOrCreateCart_branches [of fresh "''gid-1''" remote_ok "cart_of ''gid-1'' [] ''0''"]
      getOrCreateCart_branches [of fresh "''gid-1''" remote_down _ "JsError ''Failed to fetch''"]
    by (simp add: cart_id_cart_of)
qed

text \<open>
  Claim C2 as it stands fails in a session whose persisted identity has not been adopted:
  there is no current identity, yet no cart is created and no snapshot adopted, and the
  state changes although an identity is returned.
\<close>

theorem getOrCreateCart_persisted_counterexample:
  "cartId persisted_only = None \<and>
   fst (getOrCreateCart remote_ok persisted_only) = Inr ''gid-1'' \<and>
   sent (snd (getOrCreateCart remote_ok persisted_only)) = [] \<and>
   cart (snd (getOrCreateCart remote_ok persisted_only)) = None \<and>
   snd (getOrCreateCart remote_ok persisted_only) \<noteq> persisted_only"
  by (simp add: getOrCreateCart_def truthy_def control_defs setter_defs persisted_only_def
      initial_def Let_def)

section \<open>A failing \<open>addCartLines\<close>\<close>

text \<open>
  Claim C5, amended. When \<open>addItem variantId qty\<close> has obtained its identity and
  \<open>addCartLines\<close> throws, the call throws the same error, the error state is set to its
  message and the loading flag is cleared. If an identity was held before the call (in
  memory or persisted), the snapshot and every derived read are what they were before the
  call; if the call had to create the cart, the snapshot is the cart \<open>createCart\<close>
  returned.
\<close>

theorem addItem_addCartLines_fails:
  assumes "fst (getOrCreateCart R s) = Inr cid"
    and "fst (addCartLines R cid [CartLineInput variantId qty] (sent (snd (getOrCreateCart R s))))
           = Inl err"
  shows "fst (addItem R variantId qty s) = Inl err \<and>
         error (snd (addItem R variantId qty s))
           = Some (errorMessage err ''Failed to add item to cart'') \<and>
         loading (snd (addItem R variantId qty s)) = False \<and>
         (has_identity s \<longrightarrow>
            cart (snd (addItem R variantId qty s)) = cart s \<and>
            items (snd (addItem R variantId qty s)) = items s \<and>
            itemCount (snd (addItem R variantId qty s)) = itemCount s \<and>
            totalAmount parseFloat (snd (addItem R variantId qty s)) = totalAmount parseFloat s \<and>
            checkoutUrl (snd (addItem R variantId qty s)) = checkoutUrl s) \<and>
         (\<not> has_identity s \<longrightarrow>
            fst (createCart R [] (sent s)) = Inr (cart (snd (addItem R variantId qty s))))"
proof -
  obtain s1 where g: "getOrCreateCart R s = (Inr cid, s1)"
    using assms(1) by (cases "getOrCreateCart R s") simp
  obtain sent2 where a: "addCartLines R cid [CartLineInput variantId qty] (sent s1) = (Inl err, sent2)"
    using assms(2) g by (cases "addCartLines R cid [CartLineInput variantId qty] (sent s1)") simp
  have r: "addItem R variantId qty s =
             (Inl err, s1\<lparr>sent := sent2,
                          error := Some (errorMessage err ''Failed to add item to cart''),
                          loading := False\<rparr>)"
    by (simp add: addItem_unfold g a)
  have kept: "cart s1 = cart s" if "has_identity s"
    using that g
    by (auto simp: getOrCreateCart_def has_identity_def control_defs setter_defs Let_def
        split: if_splits)
  have created: "fst (createCart R [] (sent s)) = Inr (cart s1)" if "\<not> has_identity s"
    using that g
    by (auto simp: getOrCreateCart_def has_identity_def control_defs setter_defs Let_def
        split: if_splits prod.splits sum.splits option.splits)
  show ?thesis
    using kept created
    by (simp add: r items_def itemCount_def totalAmount_def checkoutUrl_def)
qed

text \<open>
  Claim C5 amended, in a session holding a cart, at a service that rejects the new
  line.
\<close>

theorem addItem_addCartLines_fails_witness:
  "fst (getOrCreateCart remote_rejecting shopping) = Inr ''gid-1'' \<and>
   fst (addCartLines remote_rejecting ''gid-1'' [CartLineInput ''variant-A'' 1]
          (sent (snd (getOrCreateCart remote_rejecting shopping))))
     = Inl (JsError ''Invalid merchandise'') \<and>
   has_identity shopping \<and>
   fst (addItem remote_rejecting ''variant-A'' 1 shopping) = Inl (JsError ''Invalid merchandise'') \<and>
   error (snd (addItem remote_rejecting ''variant-A'' 1 shopping)) = Some ''Invalid merchandise'' \<and>
   loading (snd (addItem remote_rejecting ''variant-A'' 1 shopping)) = False \<and>
   cart (snd (addItem remote_rejecting ''variant-A'' 1 shopping)) = cart shopping \<and>
   itemCount (snd (addItem remote_rejecting ''variant-A'' 1 shopping)) = itemCount shopping"
proof -
  have h1: "fst (getOrCreateCart remote_rejecting shopping) = Inr ''gid-1''"
    by (simp add: getOrCreateCart_def truthy_def returns_def shopping_def initial_def)
  have h2: "fst (addCartLines remote_rejecting ''gid-1'' [CartLineInput ''variant-A'' 1]
                  (sent (snd (getOrCreateCart remote_rejecting shopping))))
              = Inl (JsError ''Invalid merchandise'')"
    by (simp add: gateway_defs remote_rejecting_def response_of_def rejected_def)
  have h3: "has_identity shopping"
    by (simp add: has_identity_def truthy_def shopping_def initial_def)
  show ?thesis
    using h1 h2 h3 addItem_addCartLines_fails [OF h1 h2, of whole_number]
    by (simp add: errorMessage_def)
qed

text \<open>
  Claim C5 as it stands fails in a fresh session: the cart is created, \<open>addCartLines\<close>
  is rejected, and the snapshot, absent before the call, is the created cart after it;
  the checkout URL has changed with it.
\<close>

theorem addItem_created_cart_counterexample:
  "fst (getOrCreateCart remote_rejecting fresh) = Inr ''gid-1'' \<and>
   fst (addCartLines remote_rejecting ''gid-1'' [CartLineInput ''variant-A'' 1]
          (sent (snd (getOrCreateCart remote_rejecting fresh))))
     = Inl (JsError ''Invalid merchandise'') \<and>
   fst (addItem remote_rejecting ''variant-A'' 1 fresh) = Inl (JsError ''Invalid merchandise'') \<and>
   cart fresh = None \<and>
   cart (snd (addItem remote_rejecting ''variant-A'' 1 fresh))
     = Some (cart_of ''gid-1'' [] ''0'') \<and>
   checkoutUrl (snd (addItem remote_rejecting ''variant-A'' 1 fresh)) \<noteq> checkoutUrl fresh"
  by (simp add: addItem_unfold getOrCreateCart_def truthy_def control_defs setter_defs
      gateway_defs remote_rejecting_def response_of_def accepted_def rejected_def fresh_def
      initial_def checkoutUrl_def Let_def cart_id_cart_of)

section \<open>How many carts are created\<close>

lemmas call_defs = caught_def resolved_def addItem_send_def removeItem_start_def

text \<open>
  A call through the callbacks of the latest render that runs alone through its stages is
  the operation.
\<close>

lemma addItem_alone:
  "(case resume R (AddItem (cartId s) variantId qty) s of
      (c1, s1) \<Rightarrow> (case resume R c1 s1 of (c2, s2) \<Rightarrow> resume R c2 s2))
   = (Settled (fst (addItem R variantId qty s)), snd (addItem R variantId qty s))"
  by (auto simp: addItem_def getOrCreateCart_def call_defs control_defs setter_defs Let_def
      split: prod.splits sum.splits option.splits if_splits)

lemma removeItem_alone:
  "(case resume R (RemoveItem (cartId s) lineId) s of (c1, s1) \<Rightarrow> resume R c1 s1)
   = (Settled (fst (removeItem R lineId s)), snd (removeItem R lineId s))"
  by (auto simp: removeItem_def call_defs control_defs setter_defs
      split: prod.splits sum.splits)

lemma updateItemQuantity_alone:
  "(case resume R (UpdateItemQuantity (cartId s) lineId qty) s of (c1, s1) \<Rightarrow> resume R c1 s1)
   = (Settled (fst (updateItemQuantity R lineId qty s)), snd (updateItemQuantity R lineId qty s))"
  by (auto simp: updateItemQuantity_def removeItem_def call_defs control_defs setter_defs
      split: prod.splits sum.splits)

text \<open>
  A step sends a request to create a cart only if it starts a call that may create, and
  then one.
\<close>

lemma resume_createCart_calls:
  "createCart_calls (snd (resume R c s)) + (if may_create (fst (resume R c s)) then 1 else 0)
     \<le> createCart_calls s + (if may_create c then 1 else 0)"
  by (cases c)
    (auto simp: createCart_calls_def call_defs control_defs setter_defs gateway_defs Let_def
      split: prod.splits sum.splits option.splits)

lemma count_list_update:
  "i < length xs \<Longrightarrow>
   length (filter P (xs[i := y])) + (if P (xs ! i) then 1 else 0)
     = length (filter P xs) + (if P y then 1 else 0)"
proof (induction xs arbitrary: i)
  case Nil
  then show ?case by simp
next
  case (Cons x xs)
  show ?case
  proof (cases i)
    case 0
    then show ?thesis by simp
  next
    case (Suc j)
    with Cons.prems have "j < length xs" by simp
    from Cons.IH [OF this] Suc show ?thesis by simp
  qed
qed

lemma interleaved_createCart_calls:
  "createCart_calls (snd (interleaved R schedule calls s))
     + length (filter may_create (fst (interleaved R schedule calls s)))
   \<le> createCart_calls s + length (filter may_create calls)"
proof (induction schedule arbitrary: calls s)
  case Nil
  then show ?case by simp
next
  case (Cons i schedule)
  show ?case
  proof (cases "i < length calls")
    case False
    then show ?thesis using Cons.IH [of calls s] by simp
  next
    case True
    obtain c' s' where r: "resume R (calls ! i) s = (c', s')"
      by (cases "resume R (calls ! i) s")
    from resume_createCart_calls [of R "calls ! i" s] r
    have step: "createCart_calls s' + (if may_create c' then 1 else 0)
                  \<le> createCart_calls s + (if may_create (calls ! i) then 1 else 0)"
      by simp
    from count_list_update [OF True, of may_create c']
    have upd: "length (filter may_create (calls[i := c'])) + (if may_create (calls ! i) then 1 else 0)
                 = length (filter may_create calls) + (if may_create c' then 1 else 0)" .
    from Cons.IH [of "calls[i := c']" s'] step upd True r
    show ?thesis by (simp split: if_splits)
  qed
qed

text \<open>
  With an identity persisted, a step sends no request to create a cart, and the identity
  stays persisted unless the step stores an empty id.
\<close>

lemma resume_persisted:
  assumes "persisted_identity s" and "\<not> creates_unnamed c"
  shows "persisted_identity (snd (resume R c s)) \<and>
         createCart_calls (snd (resume R c s)) = createCart_calls s \<and>
         \<not> creates_unnamed (fst (resume R c s))"
  using assms
  by (cases c)
    (auto simp: persisted_identity_def createCart_calls_def truthy_def call_defs control_defs
      setter_defs gateway_defs Let_def
      split: prod.splits sum.splits option.splits)

lemma filter_list_update_empty:
  "filter P xs = [] \<Longrightarrow> \<not> P y \<Longrightarrow> filter P (xs[i := y]) = []"
  by (auto simp: filter_empty_conv dest: set_update_subset_insert [THEN subsetD])

lemma interleaved_persisted:
  "persisted_identity s \<Longrightarrow> filter creates_unnamed calls = [] \<Longrightarrow>
   persisted_identity (snd (interleaved R schedule calls s)) \<and>
   createCart_calls (snd (interleaved R schedule calls s)) = createCart_calls s"
proof (induction schedule arbitrary: calls s)
  case Nil
  then show ?case by simp
next
  case (Cons i schedule)
  show ?case
  proof (cases "i < length calls")
    case False
    then show ?thesis using Cons.IH [OF Cons.prems] by simp
  next
    case True
    obtain c' s' where r: "resume R (calls ! i) s = (c', s')"
      by (cases "resume R (calls ! i) s")
    from True Cons.prems(2) have "\<not> creates_unnamed (calls ! i)"
      by (simp add: filter_empty_conv)
    from resume_persisted [OF Cons.prems(1) this, of R] r
    have p: "persisted_identity s'" and n: "createCart_calls s' = createCart_calls s"
      and u: "\<not> creates_unnamed c'"
      by simp_all
    from filter_list_update_empty [OF Cons.prems(2) u]
    have "filter creates_unnamed (calls[i := c']) = []" .
    from Cons.IH [OF p this] n True r
    show ?thesis by simp
  qed
qed

text \<open>
  Claim C1, amended. For all calls of the mutations, through the callbacks of any
  renders and however they overlap: the requests to create a cart are at most as many as
  the calls of \<open>addItem\<close> not yet run whose render has no \<^verbatim>\<open>cartId\<close>, so a call creates
  at most one cart, and \<open>removeItem\<close> and \<open>updateItemQuantity\<close> create none. Once a
  non-empty identity is persisted, and no call still suspended in \<open>createCart\<close> is about
  to store an empty id, no request to create a cart is sent and the identity stays
  persisted. A call of \<open>addItem\<close> that gets a cart with a non-empty id from \<open>createCart\<close>
  persists it. A call of \<open>addItem\<close> that starts with neither a \<^verbatim>\<open>cartId\<close> in its
  render nor a persisted identity sends a request to create a cart.
\<close>

theorem createCart_calls_of_session:
  "createCart_calls (snd (interleaved R schedule calls s))
     \<le> createCart_calls s + length (filter may_create calls) \<and>
   (persisted_identity s \<and> filter creates_unnamed calls = [] \<longrightarrow>
      createCart_calls (snd (interleaved R schedule calls s)) = createCart_calls s \<and>
      persisted_identity (snd (interleaved R schedule calls s))) \<and>
   (cart_id c \<noteq> [] \<longrightarrow>
      persisted_identity
        (snd (resume R (AddItem_in_createCart variantId qty (Inr (Some c))) s))) \<and>
   (\<not> truthy cid \<and> \<not> persisted_identity s \<longrightarrow>
      createCart_calls (snd (resume R (AddItem cid variantId qty) s)) = createCart_calls s + 1)"
proof -
  have a: "createCart_calls (snd (interleaved R schedule calls s))
             \<le> createCart_calls s + length (filter may_create calls)"
    using interleaved_createCart_calls [of R schedule calls s] by simp
  have c: "persisted_identity
             (snd (resume R (AddItem_in_createCart variantId qty (Inr (Some c))) s))"
    if "cart_id c \<noteq> []"
    using that
    by (simp add: persisted_identity_def truthy_def call_defs control_defs setter_defs
        split: prod.splits)
  have d: "createCart_calls (snd (resume R (AddItem cid variantId qty) s)) = createCart_calls s + 1"
    if "\<not> truthy cid" and "\<not> persisted_identity s"
    using that
    by (auto simp: persisted_identity_def createCart_calls_def control_defs setter_defs
        gateway_defs Let_def split: prod.splits sum.splits)
  from a c d interleaved_persisted [of s calls R schedule] show ?thesis
    by blast
qed

text \<open>
  Claim C1 amended: with cart \<open>''gid-1''\<close> persisted, three overlapping calls through
  callbacks of a render without \<^verbatim>\<open>cartId\<close> create nothing; in a fresh session a
  call creates a cart and persists its identity, and two overlapping calls create at most
  two.
\<close>

theorem createCart_calls_of_session_witness:
  "persisted_identity shopping \<and>
   filter creates_unnamed
     [AddItem None ''variant-A'' 1, AddItem None ''variant-A'' 1, RemoveItem None ''line-1''] = [] \<and>
   createCart_calls
     (snd (interleaved remote_ok [0, Suc 0, 0, 2, Suc 0, 0, Suc 0, 2]
             [AddItem None ''variant-A'' 1, AddItem None ''variant-A'' 1,
              RemoveItem None ''line-1''] shopping))
     = createCart_calls shopping \<and>
   cart_id (cart_of ''gid-1'' [] ''0'') \<noteq> [] \<and>
   persisted_identity
     (snd (resume remote_ok
             (AddItem_in_createCart ''variant-A'' 1 (Inr (Some (cart_of ''gid-1'' [] ''0''))))
             fresh)) \<and>
   \<not> truthy None \<and> \<not> persisted_identity fresh \<and>
   createCart_calls (snd (resume remote_ok (AddItem None ''variant-A'' 1) fresh))
     = createCart_calls fresh + 1 \<and>
   createCart_calls
     (snd (interleaved remote_ok [0, Suc 0, 0, Suc 0, 0, Suc 0]
             [AddItem None ''variant-A'' 1, AddItem None ''variant-A'' 1] fresh))
     \<le> createCart_calls fresh + 2"
proof -
  have h1: "persisted_identity shopping"
    by (simp add: persisted_identity_def truthy_def localStorage_getItem_def shopping_def
        initial_def)
  have h2: "filter creates_unnamed
     [AddItem None ''variant-A'' 1, AddItem None ''variant-A'' 1, RemoveItem None ''line-1''] = []"
    by simp
  have h3: "cart_id (cart_of ''gid-1'' [] ''0'') \<noteq> []"
    by (simp add: cart_id_cart_of)
  have h4: "\<not> truthy None" "\<not> persisted_identity fresh"
    by (simp_all add: persisted_identity_def truthy_def localStorage_getItem_def fresh_def
        initial_def)
  have h5: "length (filter may_create [AddItem None ''variant-A'' 1, AddItem None ''variant-A'' 1]) = 2"
    by (simp add: truthy_def)
  from h1 h2
    createCart_calls_of_session [of remote_ok "[0, Suc 0, 0, 2, Suc 0, 0, Suc 0, 2]"
      "[AddItem None ''variant-A'' 1, AddItem None ''variant-A'' 1, RemoveItem None ''line-1'']"
      shopping]
  have b: "createCart_calls
     (snd (interleaved remote_ok [0, Suc 0, 0, 2, Suc 0, 0, Suc 0, 2]
             [AddItem None ''variant-A'' 1, AddItem None ''variant-A'' 1,
              RemoveItem None ''line-1''] shopping))
     = createCart_calls shopping"
    by blast
  from h3 h4 h5
    createCart_calls_of_session [of remote_ok "[0, Suc 0, 0, Suc 0, 0, Suc 0]"
      "[AddItem None ''variant-A'' 1, AddItem None ''variant-A'' 1]" fresh
      "cart_of ''gid-1'' [] ''0''" "''variant-A''" 1 None]
  have c: "persisted_identity
     (snd (resume remote_ok
             (AddItem_in_createCart ''variant-A'' 1 (Inr (Some (cart_of ''gid-1'' [] ''0''))))
             fresh))"
    "createCart_calls (snd (resume remote_ok (AddItem None ''variant-A'' 1) fresh))
       = createCart_calls fresh + 1"
    "createCart_calls
     (snd (interleaved remote_ok [0, Suc 0, 0, Suc 0, 0, Suc 0]
             [AddItem None ''variant-A'' 1, AddItem None ''variant-A'' 1] fresh))
     \<le> createCart_calls fresh + 2"
    by metis+
  from h1 h2 h3 h4 b c show ?thesis
    by blast
qed

text \<open>
  Claim C1 as it stands fails in a fresh session, in two ways. Two calls of \<open>addItem\<close>
  overlap: the second is called while the first is suspended in \<open>createCart\<close>, finds
  neither a \<^verbatim>\<open>cartId\<close> nor a persisted identity, and creates a cart of its own. Or
  the service is out of reach: the first call fails in \<open>createCart\<close> and leaves no
  identity, and the next call, made once the first has settled, sends a request to
  create a cart again. Either way two requests to create a cart are sent.
\<close>

theorem unserialised_addItem_counterexample:
  "\<not> has_identity fresh \<and>
   \<not> createCart_calls
       (snd (interleaved remote_ok [0, Suc 0, 0, Suc 0, 0, Suc 0]
               [AddItem None ''variant-A'' 1, AddItem None ''variant-A'' 1] fresh)) \<le> 1 \<and>
   \<not> has_identity (snd (addItem remote_down ''variant-A'' 1 fresh)) \<and>
   \<not> createCart_calls
       (snd (addItem remote_down ''variant-A'' 1
               (snd (addItem remote_down ''variant-A'' 1 fresh)))) \<le> 1"
  by (simp add: has_identity_def createCart_calls_def truthy_def addItem_unfold
      getOrCreateCart_def control_defs setter_defs gateway_defs call_defs remote_ok_def
      remote_down_def response_of_def accepted_def cart_id_cart_of fresh_def initial_def Let_def)

end
